theory Spec2Isabelle
  imports Complex_Main
begin

section \<open>Rental quote calculator: the data model\<close>

text \<open>
  The program is one Python dataclass, \<open>RentalQuote\<close>, with the pricing rules
  (\<open>base_rent\<close>, \<open>compute_monthly_rent\<close>), the contract instalment
  (\<open>contract_installment_value\<close>) and the writer of the 12-month schedule
  (\<open>to_csv\<close>).

  Conventions of the embedding.
  \<^item> Python \<open>int\<close> is \<open>int\<close>.
  \<^item> Money is Python \<open>float\<close> in the source. It is embedded as an exact rational
    (\<open>rat\<close>): \<open>0.95\<close> is \<open>95 / 100\<close>, \<open>+\<close>, \<open>*\<close> and \<open>/\<close> are exact, and
    \<open>round(x, 2)\<close> and the format \<open>:.2f\<close> round the exact value half-to-even, as
    Python does on the exact value of a float. Binary representation error, infinities
    and the conversion error of an integer beyond the range of a float are outside the
    embedding.
  \<^item> Python \<open>str\<close> is \<open>string\<close>, each \<open>char\<close> read as one code point below 256
    (Latin-1); code points from 256 on are not represented.
  \<^item> Exceptions are values: a function that can raise returns \<open>error + 'a\<close>.
\<close>

datatype error =
    ValueError string
  | ZeroDivisionError
  | FileExistsError string
  | IsADirectoryError string

record RentalQuote =
  property_type :: string
  bedrooms :: int
  garage :: bool
  studio_base_parking :: bool
  studio_extra_vagas :: int
  has_children :: bool
  contract_installments :: int
  CONTRACT_VALUE :: rat

subsection \<open>Library functions of Python used by the source\<close>

text \<open>\<open>str.lower()\<close> on code points below 256: the letters A to Z, and the
  Latin-1 capitals U+00C0 to U+00DE without the multiplication sign U+00D7, move up by 32.\<close>

definition lower_char :: "char \<Rightarrow> char" where
  "lower_char c =
     (let n = (of_char c :: nat)
      in if (65 \<le> n \<and> n \<le> 90) \<or> (192 \<le> n \<and> n \<le> 222 \<and> n \<noteq> 215)
         then char_of (n + 32) else c)"

definition lower :: "string \<Rightarrow> string" where
  "lower s = map lower_char s"

text \<open>Rounding of an exact value to the nearest integer, ties to the even one.\<close>

definition round_half_even :: "rat \<Rightarrow> int" where
  "round_half_even y =
     (let f = \<lfloor>y\<rfloor>; d = y - of_int f
      in if d < 1 / 2 then f
         else if 1 / 2 < d then f + 1
         else if even f then f else f + 1)"

text \<open>\<open>round(x, 2)\<close>.\<close>

definition py_round2 :: "rat \<Rightarrow> rat" where
  "py_round2 x = of_int (round_half_even (x * 100)) / 100"

text \<open>True division \<open>a / b\<close>, which raises on a zero divisor.\<close>

definition py_truediv :: "rat \<Rightarrow> rat \<Rightarrow> error + rat" where
  "py_truediv a b = (if b = 0 then Inl ZeroDivisionError else Inr (a / b))"

section \<open>Pricing rules\<close>

text \<open>The message of the \<open>ValueError\<close> of \<open>base_rent\<close>, which quotes the
  property type as it was given; the letter after \<open>im\<close> is U+00F3, o with acute accent.\<close>

definition unknown_type_message :: "string \<Rightarrow> string" where
  "unknown_type_message p = ''Tipo de im'' @ [CHR 0xF3] @ ''vel desconhecido: '' @ p"

definition base_rent :: "RentalQuote \<Rightarrow> error + rat" where
  "base_rent self =
     (let t = lower (property_type self)
      in if t = ''apartamento'' then Inr 700
         else if t = ''casa'' then Inr 900
         else if t = ''estudio'' then Inr 1200
         else Inl (ValueError (unknown_type_message (property_type self))))"

text \<open>Lines 61 to 77 of the source: the additive adjustments applied in turn to the
  running total \<open>rent\<close>.\<close>

definition additive_adjustments :: "RentalQuote \<Rightarrow> rat \<Rightarrow> rat" where
  "additive_adjustments self rent0 =
     (let t = lower (property_type self);
          rent1 = (if t = ''apartamento'' \<and> bedrooms self = 2 then rent0 + 200 else rent0);
          rent2 = (if t = ''casa'' \<and> bedrooms self = 2 then rent1 + 250 else rent1);
          rent3 = (if (t = ''apartamento'' \<or> t = ''casa'') \<and> garage self
                   then rent2 + 300 else rent2);
          rent4 = (if t = ''estudio'' \<and> studio_base_parking self
                   then (let r = rent3 + 250
                         in if studio_extra_vagas self > 0
                            then r + 60 * of_int (studio_extra_vagas self) else r)
                   else rent3)
      in rent4)"

text \<open>Lines 79 to 81: the discount of an apartment without children.\<close>

definition apartment_discount :: "RentalQuote \<Rightarrow> rat \<Rightarrow> rat" where
  "apartment_discount self rent =
     (let t = lower (property_type self)
      in if t = ''apartamento'' \<and> \<not> has_children self then rent * (95 / 100) else rent)"

definition compute_monthly_rent :: "RentalQuote \<Rightarrow> error + rat" where
  "compute_monthly_rent self =
     (case base_rent self of
        Inl e \<Rightarrow> Inl e
      | Inr rent \<Rightarrow> Inr (py_round2 (apartment_discount self (additive_adjustments self rent))))"

section \<open>Contract instalment\<close>

definition contract_installment_value :: "RentalQuote \<Rightarrow> error + rat" where
  "contract_installment_value self =
     (let n = max 1 (min (contract_installments self) 5)
      in case py_truediv (CONTRACT_VALUE self) (of_int n) of
           Inl e \<Rightarrow> Inl e
         | Inr v \<Rightarrow> Inr (py_round2 v))"

section \<open>Schedule writer\<close>

subsection \<open>Formatting\<close>

text \<open>The decimal digit \<open>d\<close>, for \<open>0 \<le> d < 10\<close>.\<close>

definition digit_char :: "int \<Rightarrow> char" where
  "digit_char d = ''0123456789'' ! nat d"

text \<open>\<open>str(n)\<close> for \<open>n \<ge> 0\<close>: its decimal digits.\<close>

function str_digits :: "int \<Rightarrow> string" where
  "str_digits n =
     (if n < 10 then [digit_char n]
      else str_digits (n div 10) @ [digit_char (n mod 10)])"
  by pat_completeness auto
termination
  by (relation "measure nat") auto

declare str_digits.simps [simp del]

text \<open>\<open>str(i)\<close> for an integer.\<close>

definition str_int :: "int \<Rightarrow> string" where
  "str_int i = (if i < 0 then ''-'' @ str_digits (- i) else str_digits i)"

text \<open>The format \<open>f'{x:.2f}'\<close>: the sign, the integer part, a period and two
  digits of the value rounded to hundredths.\<close>

definition format_2f :: "rat \<Rightarrow> string" where
  "format_2f x =
     (let c = round_half_even (\<bar>x\<bar> * 100)
      in (if x < 0 then ''-'' else [])
         @ str_digits (c div 100) @ ''.''
         @ [digit_char (c mod 100 div 10), digit_char (c mod 10)])"

subsection \<open>The writer of module csv, default dialect\<close>

text \<open>Fields are joined by commas and the row ends with CR LF. A field holding a
  comma, a double quote, CR or LF is enclosed in double quotes, its own double quotes
  doubled (\<open>QUOTE_MINIMAL\<close>).\<close>

definition csv_special :: "char \<Rightarrow> bool" where
  "csv_special c = (c = CHR '','' \<or> c = CHR 0x22 \<or> c = CHR 0x0D \<or> c = CHR 0x0A)"

definition csv_field :: "string \<Rightarrow> string" where
  "csv_field s =
     (if list_ex csv_special s
      then [CHR 0x22] @ concat (map (\<lambda>c. if c = CHR 0x22 then [c, c] else [c]) s) @ [CHR 0x22]
      else s)"

fun join :: "string \<Rightarrow> string list \<Rightarrow> string" where
  "join sep [] = []"
| "join sep [x] = x"
| "join sep (x # y # ys) = x @ sep @ join sep (y # ys)"

definition writerow :: "string list \<Rightarrow> string" where
  "writerow row = join '','' (map csv_field row) @ [CHR 0x0D, CHR 0x0A]"

subsection \<open>The file system\<close>

text \<open>The file system is a flat map from path strings to nodes. It has the two
  failures that the calls of \<open>to_csv\<close> can meet in it: \<open>os.makedirs\<close> on the path
  of a regular file, and \<open>open\<close> for writing on the path of a directory. Permissions,
  missing parent directories and the normalisation of paths are not modelled.\<close>

datatype node = Directory | File string

type_synonym filesystem = "string \<rightharpoonup> node"

text \<open>\<open>os.makedirs(d, exist_ok=True)\<close>.\<close>

definition makedirs :: "string \<Rightarrow> filesystem \<Rightarrow> error + filesystem" where
  "makedirs d fs =
     (case fs d of
        Some (File _) \<Rightarrow> Inl (FileExistsError d)
      | _ \<Rightarrow> Inr (fs(d \<mapsto> Directory)))"

text \<open>\<open>os.path.join(a, b)\<close> of \<open>posixpath\<close>.\<close>

definition path_join :: "string \<Rightarrow> string \<Rightarrow> string" where
  "path_join a b =
     (if b \<noteq> [] \<and> hd b = CHR ''/'' then b
      else if a = [] \<or> last a = CHR ''/'' then a @ b
      else a @ ''/'' @ b)"

text \<open>\<open>open(p, mode='w')\<close>: the file exists and is empty afterwards.\<close>

definition open_w :: "string \<Rightarrow> filesystem \<Rightarrow> error + filesystem" where
  "open_w p fs =
     (case fs p of
        Some Directory \<Rightarrow> Inl (IsADirectoryError p)
      | _ \<Rightarrow> Inr (fs(p \<mapsto> File [])))"

subsection \<open>The rows\<close>

record schedule_row =
  row_month :: int
  row_rent :: rat
  row_contract :: rat
  row_total :: rat

text \<open>Lines 119 and 120: the values of month \<open>m\<close>.\<close>

definition month_row :: "rat \<Rightarrow> rat \<Rightarrow> int \<Rightarrow> int \<Rightarrow> schedule_row" where
  "month_row mensalidade contrato_parcela installments m =
     (let contrato_here = (if m \<le> installments then contrato_parcela else 0);
          total = py_round2 (mensalidade + contrato_here)
      in \<lparr>row_month = m, row_rent = mensalidade, row_contract = contrato_here,
           row_total = total\<rparr>)"

text \<open>Line 121: the list handed to \<open>writer.writerow\<close>.\<close>

definition row_fields :: "schedule_row \<Rightarrow> string list" where
  "row_fields r =
     [str_int (row_month r), format_2f (row_rent r), format_2f (row_contract r),
      format_2f (row_total r)]"

text \<open>The loop \<open>for m in range(1, 13)\<close>, from month \<open>m\<close> on; \<open>f\<close> is the text
  written to the file so far.\<close>

function write_rows :: "rat \<Rightarrow> rat \<Rightarrow> int \<Rightarrow> int \<Rightarrow> string \<Rightarrow> string" where
  "write_rows mensalidade contrato_parcela installments m f =
     (if m < 13
      then write_rows mensalidade contrato_parcela installments (m + 1)
             (f @ writerow (row_fields (month_row mensalidade contrato_parcela installments m)))
      else f)"
  by pat_completeness auto
termination
  by (relation "measure (\<lambda>(mensalidade, contrato_parcela, installments, m, f). nat (13 - m))") auto

declare write_rows.simps [simp del]


subsection \<open>to_csv\<close>

text \<open>\<open>now\<close> is the value of \<open>datetime.now().strftime('%Y%m%d_%H%M%S')\<close>. The
  result is the returned path (or the exception) and the file system afterwards.\<close>

definition to_csv ::
  "RentalQuote \<Rightarrow> string option \<Rightarrow> string \<Rightarrow> filesystem \<Rightarrow> (error + string) \<times> filesystem" where
  "to_csv self filename now fs =
     (case compute_monthly_rent self of
        Inl e \<Rightarrow> (Inl e, fs)
      | Inr mensalidade \<Rightarrow>
     (case contract_installment_value self of
        Inl e \<Rightarrow> (Inl e, fs)
      | Inr contrato_parcela \<Rightarrow>
     (let installments = max 1 (min (contract_installments self) 5);
          filename = (case filename of
                        None \<Rightarrow> ''orcamento_'' @ now @ ''.csv''
                      | Some name \<Rightarrow> name);
          out_dir = ''output''
      in case makedirs out_dir fs of
           Inl e \<Rightarrow> (Inl e, fs)
         | Inr fs1 \<Rightarrow>
        (let filepath = path_join out_dir filename
         in case open_w filepath fs1 of
              Inl e \<Rightarrow> (Inl e, fs1)
            | Inr fs2 \<Rightarrow>
           (let f = writerow [''mes'', ''mensalidade'', ''contrato_parcela'', ''total_no_mes''];
                f = write_rows mensalidade contrato_parcela installments 1 f
            in (Inr filepath, fs2(filepath \<mapsto> File f)))))))"

section \<open>Notions used to state the properties\<close>

text \<open>The three known property types, as \<open>base_rent\<close> tells them apart.\<close>

definition is_apartamento :: "RentalQuote \<Rightarrow> bool" where
  "is_apartamento q = (lower (property_type q) = ''apartamento'')"

definition is_casa :: "RentalQuote \<Rightarrow> bool" where
  "is_casa q = (lower (property_type q) = ''casa'')"

definition is_estudio :: "RentalQuote \<Rightarrow> bool" where
  "is_estudio q = (lower (property_type q) = ''estudio'')"

definition known_type :: "RentalQuote \<Rightarrow> bool" where
  "known_type q = (is_apartamento q \<or> is_casa q \<or> is_estudio q)"






subsection \<open>Example configurations\<close>

definition example_apartamento :: RentalQuote where
  "example_apartamento =
     \<lparr>property_type = ''apartamento'', bedrooms = 1, garage = False,
      studio_base_parking = False, studio_extra_vagas = 0, has_children = False,
      contract_installments = 3, CONTRACT_VALUE = 2000\<rparr>"

definition example_casa :: RentalQuote where
  "example_casa =
     \<lparr>property_type = ''Casa'', bedrooms = 2, garage = True,
      studio_base_parking = False, studio_extra_vagas = 0, has_children = False,
      contract_installments = 7, CONTRACT_VALUE = 2000\<rparr>"


definition example_unknown :: RentalQuote where
  "example_unknown =
     \<lparr>property_type = ''loft'', bedrooms = 1, garage = False,
      studio_base_parking = False, studio_extra_vagas = 0, has_children = True,
      contract_installments = 1, CONTRACT_VALUE = 2000\<rparr>"

section \<open>Auxiliary facts\<close>

subsection \<open>Rounding\<close>





subsection \<open>Formatting and the rows of the file\<close>















subsection \<open>Pricing and to_csv\<close>


lemma base_rent_unknown:
  "\<not> known_type q \<Longrightarrow> base_rent q = Inl (ValueError (unknown_type_message (property_type q)))"
  by (simp add: base_rent_def known_type_def is_apartamento_def is_casa_def is_estudio_def)


lemma contract_installment_value_eq:
  "contract_installment_value q
     = Inr (py_round2 (CONTRACT_VALUE q / of_int (max 1 (min (contract_installments q) 5))))"
  by (simp add: contract_installment_value_def py_truediv_def Let_def)


lemma to_csv_unknown:
  "\<not> known_type q \<Longrightarrow>
     to_csv q filename now fs = (Inl (ValueError (unknown_type_message (property_type q))), fs)"
  by (simp add: to_csv_def compute_monthly_rent_def base_rent_unknown)


subsection \<open>The schedule\<close>







section \<open>The claims\<close>







text \<open>
  C4. With the contract fee at its value 2000, \<open>contract_installment_value\<close>
  returns \<open>round(2000 / n, 2)\<close> for \<open>n\<close> the requested count clamped to 1..5,
  for every integer count, and never raises; a count of 3 gives 666.67 and a count of 7
  is clamped to 5 and gives 400.00.
\<close>

theorem contract_installment_value_clamped:
  assumes "CONTRACT_VALUE q = 2000"
  shows "contract_installment_value q
           = Inr (py_round2 (2000 / of_int (max 1 (min (contract_installments q) 5))))
       \<and> (contract_installments q = 3 \<longrightarrow> contract_installment_value q = Inr (66667 / 100))
       \<and> (contract_installments q = 7 \<longrightarrow> contract_installment_value q = Inr 400)"
proof -
  have three: "py_round2 (2000 / of_int (max 1 (min 3 5))) = 66667 / 100" by code_simp
  have seven: "py_round2 (2000 / of_int (max 1 (min 7 5))) = 400" by code_simp
  from assms three seven show ?thesis
    by (auto simp: contract_installment_value_eq)
qed

theorem contract_installment_value_clamped_witness:
  "CONTRACT_VALUE example_apartamento = 2000
   \<and> contract_installments example_apartamento = 3
   \<and> contract_installment_value example_apartamento = Inr (66667 / 100)
   \<and> CONTRACT_VALUE example_casa = 2000
   \<and> contract_installments example_casa = 7
   \<and> contract_installment_value example_casa = Inr 400"
proof -
  have a: "CONTRACT_VALUE example_apartamento = 2000" "contract_installments example_apartamento = 3"
    by (simp_all add: example_apartamento_def)
  have c: "CONTRACT_VALUE example_casa = 2000" "contract_installments example_casa = 7"
    by (simp_all add: example_casa_def)
  from contract_installment_value_clamped [OF a(1)] a(2)
  have 1: "contract_installment_value example_apartamento = Inr (66667 / 100)" by blast
  from contract_installment_value_clamped [OF c(1)] c(2)
  have 2: "contract_installment_value example_casa = Inr 400" by blast
  from a c 1 2 show ?thesis by blast
qed

text \<open>
  C5. For a configuration whose property type is none of the three known values,
  \<open>base_rent\<close> and \<open>compute_monthly_rent\<close> raise the \<open>ValueError\<close> of the
  unknown type, and \<open>to_csv\<close> raises it with the file system as it was: no directory
  and no file is created, no row is written.
\<close>

theorem unknown_type_raises_before_output:
  assumes "\<not> known_type q"
  shows "base_rent q = Inl (ValueError (unknown_type_message (property_type q)))
       \<and> compute_monthly_rent q = Inl (ValueError (unknown_type_message (property_type q)))
       \<and> to_csv q filename now fs
           = (Inl (ValueError (unknown_type_message (property_type q))), fs)"
  using assms
  by (simp add: base_rent_unknown to_csv_unknown compute_monthly_rent_def)

theorem unknown_type_raises_before_output_witness:
  "\<not> known_type example_unknown
   \<and> compute_monthly_rent example_unknown = Inl (ValueError (unknown_type_message ''loft''))
   \<and> to_csv example_unknown None ''20260101_120000'' Map.empty
       = (Inl (ValueError (unknown_type_message ''loft'')), Map.empty)"
proof -
  have h: "\<not> known_type example_unknown" by code_simp
  have p: "property_type example_unknown = ''loft''" by (simp add: example_unknown_def)
  from unknown_type_raises_before_output [OF h, of None "''20260101_120000''" Map.empty] h p
  show ?thesis by simp
qed













end
